theory Spec2Isabelle
  imports Main "HOL-Library.Word"
begin

unbundle bit_operations_syntax

section \<open>Target program: metadata, memory and struct layout\<close>

text \<open>
  The helpers of \<^verbatim>\<open>drgn/helpers/linux/mm.py\<close> work on a \<^verbatim>\<open>Program\<close> (the debugged
  kernel) and on \<^verbatim>\<open>struct page *\<close> objects. Only AArch64, s390x and x86-64 are
  supported, so pointers, \<^verbatim>\<open>unsigned long\<close> and \<^verbatim>\<open>phys_addr_t\<close> are 64 bits wide.

  A \<^verbatim>\<open>struct page *\<close> is its address. \<^verbatim>\<open>prog[name]\<close> either gives the value of the
  named constant, enumerator or variable, or raises \<^verbatim>\<open>KeyError\<close>. Reading a member
  through a pointer either gives the word stored there or raises \<^verbatim>\<open>FaultError\<close>.
  The layout of \<^verbatim>\<open>struct page\<close> and \<^verbatim>\<open>struct pglist_data\<close> belongs to the target's debug
  information, so the offsets and the size of a descriptor are fields of the program.
  Operators on objects are taken as the integer operations on their values, at the
  width of the object's type.
\<close>

type_synonym addr = "64 word"

datatype error = KeyError string | FaultError addr

record program =
  symbols :: "string \<Rightarrow> 64 word option"
  read_ulong :: "addr \<Rightarrow> 64 word option"
  read_order :: "addr \<Rightarrow> 32 word option"
  sizeof_page :: "64 word"
  off_flags :: "64 word"
  off_compound_head :: "64 word"
  off_compound_order :: "64 word"
  off_node_mem_map :: "64 word"
  off_node_start_pfn :: "64 word"
  direct_mapping_offset :: "error + 64 word"
  cache :: "string \<rightharpoonup> 64 word"

text \<open>Sequencing of calls that may raise: the first exception is the result.\<close>

definition ebind :: "error + 'a \<Rightarrow> ('a \<Rightarrow> error + 'b) \<Rightarrow> error + 'b" where
  "ebind m f = (case m of Inl e \<Rightarrow> Inl e | Inr v \<Rightarrow> f v)"

text \<open>\<^verbatim>\<open>prog[name]\<close>\<close>

definition prog_lookup :: "program \<Rightarrow> string \<Rightarrow> error + 64 word" where
  "prog_lookup prog name =
     (case symbols prog name of None \<Rightarrow> Inl (KeyError name) | Some v \<Rightarrow> Inr v)"

text \<open>Reading an \<^verbatim>\<open>unsigned long\<close> member at offset \<open>off\<close> of the struct at \<open>p\<close>.\<close>

definition read_member :: "program \<Rightarrow> addr \<Rightarrow> 64 word \<Rightarrow> error + 64 word" where
  "read_member prog p off =
     (case read_ulong prog (p + off) of
        None \<Rightarrow> Inl (FaultError (p + off))
      | Some v \<Rightarrow> Inr v)"

text \<open>\<^verbatim>\<open>page + i\<close> and \<^verbatim>\<open>page[i]\<close>: pointer arithmetic with the stride of a descriptor.\<close>

definition page_add :: "program \<Rightarrow> addr \<Rightarrow> int \<Rightarrow> addr" where
  "page_add prog page i = page + word_of_int i * sizeof_page prog"

text \<open>\<^verbatim>\<open>page.flags\<close> and \<^verbatim>\<open>page.compound_head\<close>\<close>

definition page_flags :: "program \<Rightarrow> addr \<Rightarrow> error + 64 word" where
  "page_flags prog page = read_member prog page (off_flags prog)"

definition page_compound_head :: "program \<Rightarrow> addr \<Rightarrow> error + 64 word" where
  "page_compound_head prog page = read_member prog page (off_compound_head prog)"

text \<open>\<^verbatim>\<open>bool(flags & (1 << flag))\<close>\<close>

definition flag_test :: "64 word \<Rightarrow> 64 word \<Rightarrow> bool" where
  "flag_test flags flag \<longleftrightarrow> uint flags AND push_bit (unat flag) 1 \<noteq> 0"

section \<open>Generated page flag getters\<close>

text \<open>
  Every getter generated by \<^verbatim>\<open>scripts/generate_page_flag_getters.py\<close> has the same body,
  with its own flag name:
  \<^verbatim>\<open>
    try:
        flag = page.prog_["PG_active"]
    except KeyError:
        return False
    return bool(page.flags & (1 << flag))
  \<close>
\<close>

definition page_flag_getter :: "string \<Rightarrow> program \<Rightarrow> addr \<Rightarrow> error + bool" where
  "page_flag_getter name prog page =
     (case prog_lookup prog name of
        Inl (KeyError k) \<Rightarrow> Inr False
      | Inl e \<Rightarrow> Inl e
      | Inr flag \<Rightarrow> ebind (page_flags prog page) (\<lambda>flags. Inr (flag_test flags flag)))"

definition PageActive :: "program \<Rightarrow> addr \<Rightarrow> error + bool" where
  "PageActive = page_flag_getter ''PG_active''"

definition PageLRU :: "program \<Rightarrow> addr \<Rightarrow> error + bool" where
  "PageLRU = page_flag_getter ''PG_lru''"

section \<open>Compound pages\<close>

definition PageCompound :: "program \<Rightarrow> addr \<Rightarrow> error + bool" where
  "PageCompound prog page =
     ebind (prog_lookup prog ''PG_head'') (\<lambda>flag.
     ebind (page_flags prog page) (\<lambda>flags.
       if flag_test flags flag then Inr True
       else ebind (page_compound_head prog page) (\<lambda>head. Inr (head AND 1 \<noteq> 0))))"

definition page_is_fake_head :: "program \<Rightarrow> addr \<Rightarrow> error + bool" where
  "page_is_fake_head prog page =
     ebind (page_compound_head prog (page_add prog page 1)) (\<lambda>w.
       let head = uint w in Inr (head AND 1 \<noteq> 0 \<and> head - 1 \<noteq> uint page))"

definition PageHead :: "program \<Rightarrow> addr \<Rightarrow> error + bool" where
  "PageHead prog page =
     ebind (prog_lookup prog ''PG_head'') (\<lambda>flag.
     ebind (page_flags prog page) (\<lambda>flags.
       if flag_test flags flag
       then ebind (page_is_fake_head prog page) (\<lambda>fake. Inr (\<not> fake))
       else Inr False))"

definition PageTail :: "program \<Rightarrow> addr \<Rightarrow> error + bool" where
  "PageTail prog page =
     ebind (page_compound_head prog page) (\<lambda>w.
       if uint w AND 1 \<noteq> 0 then Inr True
       else
         ebind (prog_lookup prog ''PG_head'') (\<lambda>flag.
         ebind (page_flags prog page) (\<lambda>flags.
           if flag_test flags flag then page_is_fake_head prog page
           else Inr False)))"

definition compound_head :: "program \<Rightarrow> addr \<Rightarrow> error + addr" where
  "compound_head prog page =
     ebind (page_compound_head prog page) (\<lambda>head.
       if head AND 1 \<noteq> 0 then Inr (head - 1)
       else
         ebind (prog_lookup prog ''PG_head'') (\<lambda>flag.
         ebind (page_flags prog page) (\<lambda>flags.
           if flag_test flags flag
           then ebind (page_compound_head prog (page_add prog page 1)) (\<lambda>head.
                  if head AND 1 \<noteq> 0 then Inr (head - 1) else Inr page)
           else Inr page)))"

text \<open>
  \<^verbatim>\<open>page[1].compound_order\<close>: the order field of the descriptor one slot ahead, as the
  \<^verbatim>\<open>unsigned int\<close> that \<^verbatim>\<open>compound_order\<close> casts it to.
\<close>

definition page1_compound_order :: "program \<Rightarrow> addr \<Rightarrow> error + 32 word" where
  "page1_compound_order prog page =
     (let a = page_add prog page 1 + off_compound_order prog in
      case read_order prog a of None \<Rightarrow> Inl (FaultError a) | Some v \<Rightarrow> Inr v)"

definition compound_order :: "program \<Rightarrow> addr \<Rightarrow> error + 32 word" where
  "compound_order prog page =
     ebind (PageHead prog page) (\<lambda>h.
       if \<not> h then Inr 0 else page1_compound_order prog page)"

definition compound_nr :: "program \<Rightarrow> addr \<Rightarrow> error + 64 word" where
  "compound_nr prog page =
     ebind (PageHead prog page) (\<lambda>h.
       if \<not> h then Inr 1
       else ebind (page1_compound_order prog page) (\<lambda>order.
              Inr (push_bit (unat order) 1)))"

definition page_size :: "program \<Rightarrow> addr \<Rightarrow> error + 64 word" where
  "page_size prog page =
     ebind (prog_lookup prog ''PAGE_SIZE'') (\<lambda>ps.
     ebind (compound_order prog page) (\<lambda>order.
       Inr (push_bit (unat order) ps)))"

section \<open>The descriptor of PFN 0\<close>

text \<open>
  \<^verbatim>\<open>_page0\<close> reads and writes \<^verbatim>\<open>prog.cache\<close>, so it returns the program too. The
  \<^verbatim>\<open>except KeyError\<close> guards the lookup of \<^verbatim>\<open>vmemmap\<close> only; whatever the second strategy
  raises is raised to the caller, and then nothing is cached.
\<close>

definition page0_flatmem :: "program \<Rightarrow> error + addr" where
  "page0_flatmem prog =
     ebind (prog_lookup prog ''contig_page_data'') (\<lambda>contig_page_data.
     ebind (read_member prog contig_page_data (off_node_mem_map prog)) (\<lambda>node_mem_map.
     ebind (read_member prog contig_page_data (off_node_start_pfn prog)) (\<lambda>node_start_pfn.
       Inr (node_mem_map - node_start_pfn * sizeof_page prog))))"

definition page0 :: "program \<Rightarrow> (error + addr) \<times> program" where
  "page0 prog =
     (case cache prog ''page0'' of
        Some p \<Rightarrow> (Inr p, prog)
      | None \<Rightarrow>
          (case (case prog_lookup prog ''vmemmap'' of
                   Inr vmemmap \<Rightarrow> Inr vmemmap
                 | Inl (KeyError k) \<Rightarrow> page0_flatmem prog
                 | Inl e \<Rightarrow> Inl e) of
             Inl e \<Rightarrow> (Inl e, prog)
           | Inr p \<Rightarrow> (Inr p, prog\<lparr>cache := (cache prog)(''page0'' \<mapsto> p)\<rparr>)))"

section \<open>Iterating over all pages\<close>

text \<open>
  \<^verbatim>\<open>for_each_page\<close> is a generator. Nothing of its body runs before the first
  \<^verbatim>\<open>next()\<close>; then it is suspended at the \<^verbatim>\<open>yield\<close> with \<^verbatim>\<open>page0\<close>, the next index and
  the end of the \<^verbatim>\<open>range\<close>; an exception or the end of the range finishes it.
  A step gives \<open>Inr (Some page)\<close> for a yielded page, \<open>Inr None\<close> for
  \<^verbatim>\<open>StopIteration\<close> and \<open>Inl e\<close> for an exception.
\<close>

datatype generator = Created | Suspended addr int int | Finished

definition range_step ::
  "program \<Rightarrow> addr \<Rightarrow> int \<Rightarrow> int \<Rightarrow> (error + addr option) \<times> generator" where
  "range_step prog p i stop =
     (if i < stop then (Inr (Some (page_add prog p i)), Suspended p (i + 1) stop)
      else (Inr None, Finished))"

fun for_each_page_next ::
  "program \<Rightarrow> generator \<Rightarrow> (error + addr option) \<times> generator \<times> program" where
  "for_each_page_next prog Created =
     (case page0 prog of
        (Inl e, prog') \<Rightarrow> (Inl e, Finished, prog')
      | (Inr p, prog') \<Rightarrow>
          (case prog_lookup prog' ''min_low_pfn'' of
             Inl e \<Rightarrow> (Inl e, Finished, prog')
           | Inr lo \<Rightarrow>
               (case prog_lookup prog' ''max_pfn'' of
                  Inl e \<Rightarrow> (Inl e, Finished, prog')
                | Inr hi \<Rightarrow>
                    (case range_step prog' p (uint lo) (uint hi) of
                       (r, g) \<Rightarrow> (r, g, prog')))))"
| "for_each_page_next prog (Suspended p i stop) =
     (case range_step prog p i stop of (r, g) \<Rightarrow> (r, g, prog))"
| "for_each_page_next prog Finished = (Inr None, Finished, prog)"

text \<open>
  \<^verbatim>\<open>itertools.islice(for_each_page(prog), n)\<close>: at most \<open>n\<close> pages are taken from the
  generator; it ends earlier when the generator does.
\<close>

fun take_pages :: "nat \<Rightarrow> program \<Rightarrow> generator \<Rightarrow> addr list \<times> generator \<times> program" where
  "take_pages 0 prog g = ([], g, prog)"
| "take_pages (Suc n) prog g =
     (case for_each_page_next prog g of
        (Inr (Some page), g', prog') \<Rightarrow>
          (case take_pages n prog' g' of
             (pages, g'', prog'') \<Rightarrow> (page # pages, g'', prog''))
      | (r, g', prog') \<Rightarrow> ([], g', prog'))"

text \<open>
  The loop of the docstring, for any access \<open>f\<close> to the page:
  \<^verbatim>\<open>
    for page in for_each_page(prog):
        try:
            ... f(page) ...
        except drgn.FaultError:
            continue
  \<close>
  The result lists the pages whose access returned, with what it returned. Any other
  exception ends the loop. The loop has fuel: \<open>None\<close> means that the fuel ran out
  before the generator finished.
\<close>

fun for_each_page_try ::
  "nat \<Rightarrow> (program \<Rightarrow> addr \<Rightarrow> error + 'a) \<Rightarrow> program \<Rightarrow> generator
     \<Rightarrow> (error + (addr \<times> 'a) list) option" where
  "for_each_page_try 0 f prog g = None"
| "for_each_page_try (Suc n) f prog g =
     (case for_each_page_next prog g of
        (Inl e, g', prog') \<Rightarrow> Some (Inl e)
      | (Inr None, g', prog') \<Rightarrow> Some (Inr [])
      | (Inr (Some page), g', prog') \<Rightarrow>
          (case f prog' page of
             Inl (FaultError a) \<Rightarrow> for_each_page_try n f prog' g'
           | Inl e \<Rightarrow> Some (Inl e)
           | Inr v \<Rightarrow>
               (case for_each_page_try n f prog' g' of
                  None \<Rightarrow> None
                | Some (Inl e) \<Rightarrow> Some (Inl e)
                | Some (Inr rest) \<Rightarrow> Some (Inr ((page, v) # rest)))))"

text \<open>What the loop keeps of a page: nothing when the access raised, else the page with
  what the access returned.\<close>

definition skip_faults ::
  "(program \<Rightarrow> addr \<Rightarrow> error + 'a) \<Rightarrow> program \<Rightarrow> addr \<Rightarrow> (addr \<times> 'a) option" where
  "skip_faults f prog page = (case f prog page of Inl e \<Rightarrow> None | Inr v \<Rightarrow> Some (page, v))"

section \<open>Address translation\<close>

text \<open>
  \<^verbatim>\<open>operator.index\<close> gives a Python integer; \<^verbatim>\<open>Object(prog, type, value)\<close> keeps the
  value at the width of the type.
\<close>

definition PFN_PHYS :: "program \<Rightarrow> int \<Rightarrow> error + 64 word" where
  "PFN_PHYS prog pfn =
     ebind (prog_lookup prog ''PAGE_SHIFT'') (\<lambda>shift.
       Inr (push_bit (unat shift) (word_of_int pfn)))"

definition PHYS_PFN :: "program \<Rightarrow> int \<Rightarrow> error + 64 word" where
  "PHYS_PFN prog addr =
     ebind (prog_lookup prog ''PAGE_SHIFT'') (\<lambda>shift.
       Inr (drop_bit (unat shift) (word_of_int addr)))"

definition phys_to_virt :: "program \<Rightarrow> int \<Rightarrow> error + 64 word" where
  "phys_to_virt prog addr =
     ebind (direct_mapping_offset prog) (\<lambda>offset.
       Inr (word_of_int (addr + uint offset)))"

definition virt_to_phys :: "program \<Rightarrow> int \<Rightarrow> error + 64 word" where
  "virt_to_phys prog addr =
     ebind (direct_mapping_offset prog) (\<lambda>offset.
       Inr (word_of_int (addr - uint offset)))"

section \<open>Example targets\<close>

text \<open>
  A target with the layout of \<^verbatim>\<open>struct page\<close> that x86-64 kernels commonly have: 64-byte
  descriptors, \<^verbatim>\<open>flags\<close> at offset 0, \<^verbatim>\<open>compound_head\<close> at offset 8 and
  \<^verbatim>\<open>compound_order\<close> at offset 17; given are its symbols, the words of its memory and
  the order fields.
\<close>

definition target ::
  "(string \<rightharpoonup> 64 word) \<Rightarrow> (addr \<rightharpoonup> 64 word) \<Rightarrow> (addr \<rightharpoonup> 32 word) \<Rightarrow> program" where
  "target syms mem ord =
     \<lparr>symbols = syms, read_ulong = mem, read_order = ord,
      sizeof_page = 0x40, off_flags = 0, off_compound_head = 8, off_compound_order = 0x11,
      off_node_mem_map = 0x1800, off_node_start_pfn = 0x1810,
      direct_mapping_offset = Inr 0xffff888000000000,
      cache = Map.empty\<rparr>"

text \<open>
  A compound page of order 3 whose head is the descriptor at \<open>0x1000\<close>: the head flag
  (bit 16 here) is set in its flags, and the descriptor after it, at \<open>0x1040\<close>, is a tail
  that points back to it. The descriptor at \<open>0x2000\<close> is a page on its own.
\<close>

definition head_target :: program where
  "head_target =
     target [''PG_head'' \<mapsto> 16, ''PG_active'' \<mapsto> 6, ''PAGE_SHIFT'' \<mapsto> 12,
             ''PAGE_SIZE'' \<mapsto> 4096]
       [0x1000 \<mapsto> 0x10040, 0x1008 \<mapsto> 0, 0x1040 \<mapsto> 0, 0x1048 \<mapsto> 0x1001, 0x1088 \<mapsto> 0x1001,
        0x2000 \<mapsto> 0, 0x2008 \<mapsto> 0]
       [0x1051 \<mapsto> 3]"

text \<open>
  A descriptor at \<open>0x1000\<close> with the head flag set and a tagged compound-head word of
  its own, followed by a descriptor whose compound-head word is not tagged.
\<close>

definition flagged_tail_target :: program where
  "flagged_tail_target =
     target [''PG_head'' \<mapsto> 16]
       [0x1000 \<mapsto> 0x10000, 0x1008 \<mapsto> 0x2001, 0x1048 \<mapsto> 0]
       Map.empty"

text \<open>
  The descriptor at \<open>0x1000\<close> is tagged as a tail of \<open>0x2000\<close>, which is tagged as a
  tail of \<open>0x3000\<close>.
\<close>

definition chain_target :: program where
  "chain_target =
     target [''PG_head'' \<mapsto> 16] [0x1008 \<mapsto> 0x2001, 0x2008 \<mapsto> 0x3001] Map.empty"

text \<open>A target without any of the symbols, with a tail descriptor at \<open>0x1000\<close>.\<close>

definition bare_target :: program where
  "bare_target = target Map.empty [0x1000 \<mapsto> 0, 0x1008 \<mapsto> 0x2001] Map.empty"

text \<open>
  A target with \<^verbatim>\<open>CONFIG_FLATMEM\<close>: no \<^verbatim>\<open>vmemmap\<close>; \<^verbatim>\<open>contig_page_data\<close> is at
  \<open>0x5000\<close>, its \<^verbatim>\<open>node_mem_map\<close> is \<open>0x900400\<close> and its \<^verbatim>\<open>node_start_pfn\<close> is 16.
\<close>

definition flatmem_target :: program where
  "flatmem_target =
     target [''contig_page_data'' \<mapsto> 0x5000] [0x6800 \<mapsto> 0x900400, 0x6810 \<mapsto> 0x10] Map.empty"

text \<open>
  A target with \<^verbatim>\<open>vmemmap\<close> at \<open>0x100000\<close> and the PFNs 0 to 9. Every word of its
  memory reads as \<open>0x20\<close>, but the flags of the descriptor of PFN 5, at \<open>0x100140\<close>,
  cannot be read.
\<close>

definition scan_target :: program where
  "scan_target =
     target [''vmemmap'' \<mapsto> 0x100000, ''min_low_pfn'' \<mapsto> 0, ''max_pfn'' \<mapsto> 10, ''PG_lru'' \<mapsto> 5]
       (\<lambda>a. if a = 0x100140 then None else Some 0x20)
       Map.empty"

text \<open>The same target once \<^verbatim>\<open>_page0\<close> has cached the address of the first descriptor.\<close>

definition scan_target_cached :: program where
  "scan_target_cached = scan_target\<lparr>cache := (cache scan_target)(''page0'' \<mapsto> 0x100000)\<rparr>"

section \<open>Words, tags and flag bits\<close>

lemma bit_uint64: "bit (uint (w::64 word)) n \<longleftrightarrow> bit w n"
  by (auto simp: bit_uint_iff dest: bit_imp_le_length)

lemma flag_test_bit: "flag_test f b \<longleftrightarrow> bit f (unat b)"
proof -
  have "bit f (unat b) \<longleftrightarrow> bit (uint f) (unat b)"
    by (simp only: bit_uint64)
  also have "\<dots> \<longleftrightarrow> uint f AND push_bit (unat b) 1 \<noteq> 0"
    by (rule bit_iff_and_push_bit_not_eq_0)
  finally show ?thesis
    by (simp add: flag_test_def)
qed

lemma word_and_1: "(w::64 word) AND 1 \<noteq> 0 \<longleftrightarrow> odd w"
  by (simp add: and_one_eq mod_2_eq_odd)

lemma uint_and_1: "uint (w::64 word) AND 1 \<noteq> 0 \<longleftrightarrow> odd w"
proof -
  have "bit (uint w) 0 \<longleftrightarrow> bit w 0" by (simp only: bit_uint64)
  then show ?thesis by (simp add: and_one_eq mod_2_eq_odd bit_0)
qed

lemma uint_pred: "odd (w::64 word) \<Longrightarrow> uint w - 1 = uint (w - 1)"
proof -
  assume "odd w"
  then have "w \<noteq> 0" by auto
  then have "1 \<le> w" by (simp add: word_le_nat_alt unat_gt_0 Suc_le_eq)
  then show ?thesis by (simp add: uint_minus_simple_alt)
qed

lemma uint_pred_neq: "odd (w::64 word) \<Longrightarrow> uint w - 1 \<noteq> uint p \<longleftrightarrow> w - 1 \<noteq> p"
  by (simp add: uint_pred word_uint_eq_iff)

lemma or_1_even: "even (p::64 word) \<Longrightarrow> (p OR 1) - 1 = p"
  by (simp add: or_one_eq)

lemma page_is_fake_head_Inr:
  "page_compound_head prog (page_add prog page 1) = Inr w \<Longrightarrow>
   page_is_fake_head prog page = Inr (odd w \<and> w - 1 \<noteq> page)"
proof (cases "odd w")
  case True
  assume "page_compound_head prog (page_add prog page 1) = Inr w"
  with True show ?thesis
    by (simp add: page_is_fake_head_def ebind_def Let_def uint_and_1 uint_pred_neq)
next
  case False
  assume "page_compound_head prog (page_add prog page 1) = Inr w"
  with False show ?thesis
    by (simp add: page_is_fake_head_def ebind_def Let_def uint_and_1)
qed

lemma prog_lookup_Some: "symbols prog name = Some v \<Longrightarrow> prog_lookup prog name = Inr v"
  by (simp add: prog_lookup_def)

lemma prog_lookup_None: "symbols prog name = None \<Longrightarrow> prog_lookup prog name = Inl (KeyError name)"
  by (simp add: prog_lookup_def)

lemmas run_defs =
  target_def ebind_def prog_lookup_def page_flags_def page_compound_head_def read_member_def
  page_add_def flag_test_bit word_and_1 uint_and_1

lemma uint_pred_eqD: "uint (w::64 word) - 1 = uint p \<Longrightarrow> odd w \<Longrightarrow> w - 1 = p"
  by (simp add: uint_pred word_uint_eq_iff)

lemma shift_round_trip:
  assumes "uint (w :: 64 word) < 2 ^ (64 - n)"
  shows "drop_bit n (push_bit n w) = w"
proof (rule bit_word_eqI)
  fix k
  assume "k < LENGTH(64)"
  have "take_bit (64 - n) (uint w) = uint w"
    using assms by (simp add: take_bit_int_eq_self)
  then have "bit (uint w) k \<longleftrightarrow> k < 64 - n \<and> bit (uint w) k"
    by (metis bit_take_bit_iff)
  then have "bit w k \<longleftrightarrow> k < 64 - n \<and> bit w k"
    by (simp only: bit_uint64)
  then show "bit (drop_bit n (push_bit n w)) k \<longleftrightarrow> bit w k"
    by (auto simp: bit_drop_bit_eq bit_push_bit_iff)
qed

section \<open>Head and tail pages\<close>

text \<open>
  Claim C1, as the code has it. \<^verbatim>\<open>PageTail\<close> answers from the descriptor's own
  compound-head word before it looks at the head flag, and \<^verbatim>\<open>PageHead\<close> never looks at
  that word. So \<^verbatim>\<open>PageHead\<close> and \<^verbatim>\<open>PageTail\<close> are never both true of a descriptor,
  unless it has the head flag and a tagged compound-head word of its own at once: every
  other descriptor is a head, a tail, or neither. A descriptor with a tagged word of its
  own and without the head flag is a tail and not a head. The two are both true exactly
  of a descriptor that has the head flag and a tagged word of its own and is not a fake
  head.
\<close>

theorem PageHead_PageTail_exclusive:
  "(\<not> (\<exists>w b f. page_compound_head prog page = Inr w \<and> odd w \<and>
                symbols prog ''PG_head'' = Some b \<and> page_flags prog page = Inr f \<and>
                bit f (unat b))
      \<longrightarrow> \<not> (PageHead prog page = Inr True \<and> PageTail prog page = Inr True)) \<and>
   (page_compound_head prog page = Inr w \<and> odd w \<and> symbols prog ''PG_head'' = Some b \<and>
    page_flags prog page = Inr f \<and> \<not> bit f (unat b)
      \<longrightarrow> PageTail prog page = Inr True \<and> PageHead prog page = Inr False) \<and>
   (PageHead prog page = Inr True \<and> PageTail prog page = Inr True
      \<longleftrightarrow> (\<exists>w b f w'. page_compound_head prog page = Inr w \<and> odd w \<and>
                symbols prog ''PG_head'' = Some b \<and> page_flags prog page = Inr f \<and>
                bit f (unat b) \<and>
                page_compound_head prog (page_add prog page 1) = Inr w' \<and>
                (even w' \<or> w' - 1 = page)))"
proof -
  have both: "PageHead prog page = Inr True \<and> PageTail prog page = Inr True
      \<longleftrightarrow> (\<exists>w b f w'. page_compound_head prog page = Inr w \<and> odd w \<and>
                symbols prog ''PG_head'' = Some b \<and> page_flags prog page = Inr f \<and>
                bit f (unat b) \<and>
                page_compound_head prog (page_add prog page 1) = Inr w' \<and>
                (even w' \<or> w' - 1 = page))"
  proof
    assume a: "PageHead prog page = Inr True \<and> PageTail prog page = Inr True"
    then obtain b f where b: "symbols prog ''PG_head'' = Some b"
      and f: "page_flags prog page = Inr f" and bf: "bit f (unat b)"
      and nf: "page_is_fake_head prog page = Inr False"
      by (auto simp: PageHead_def ebind_def prog_lookup_def flag_test_bit
          split: option.splits sum.splits if_splits)
    from nf obtain w' where w': "page_compound_head prog (page_add prog page 1) = Inr w'"
      by (auto simp: page_is_fake_head_def ebind_def split: sum.splits)
    with nf have ok: "even w' \<or> w' - 1 = page"
      by (auto simp: page_is_fake_head_Inr)
    from a b f bf nf obtain w where "page_compound_head prog page = Inr w" and "odd w"
      by (auto simp: PageTail_def ebind_def prog_lookup_def flag_test_bit uint_and_1
          split: sum.splits if_splits)
    with b f bf w' ok show "\<exists>w b f w'. page_compound_head prog page = Inr w \<and> odd w \<and>
                symbols prog ''PG_head'' = Some b \<and> page_flags prog page = Inr f \<and>
                bit f (unat b) \<and>
                page_compound_head prog (page_add prog page 1) = Inr w' \<and>
                (even w' \<or> w' - 1 = page)"
      by blast
  next
    assume "\<exists>w b f w'. page_compound_head prog page = Inr w \<and> odd w \<and>
                symbols prog ''PG_head'' = Some b \<and> page_flags prog page = Inr f \<and>
                bit f (unat b) \<and>
                page_compound_head prog (page_add prog page 1) = Inr w' \<and>
                (even w' \<or> w' - 1 = page)"
    then obtain w b f w' where "page_compound_head prog page = Inr w" "odd w"
      "symbols prog ''PG_head'' = Some b" "page_flags prog page = Inr f" "bit f (unat b)"
      "page_compound_head prog (page_add prog page 1) = Inr w'" "even w' \<or> w' - 1 = page"
      by blast
    then show "PageHead prog page = Inr True \<and> PageTail prog page = Inr True"
      by (auto simp: PageHead_def PageTail_def ebind_def prog_lookup_def flag_test_bit
          uint_and_1 page_is_fake_head_Inr)
  qed
  have tail: "page_compound_head prog page = Inr w \<and> odd w \<and>
    symbols prog ''PG_head'' = Some b \<and> page_flags prog page = Inr f \<and> \<not> bit f (unat b)
      \<longrightarrow> PageTail prog page = Inr True \<and> PageHead prog page = Inr False"
    by (simp add: PageHead_def PageTail_def ebind_def prog_lookup_def flag_test_bit uint_and_1)
  from both have excl: "\<not> (\<exists>w b f. page_compound_head prog page = Inr w \<and> odd w \<and>
                symbols prog ''PG_head'' = Some b \<and> page_flags prog page = Inr f \<and>
                bit f (unat b))
      \<longrightarrow> \<not> (PageHead prog page = Inr True \<and> PageTail prog page = Inr True)"
    by blast
  from excl tail both show ?thesis
    by blast
qed

text \<open>
  In the compound page of order 3: the tail at \<open>0x1040\<close> has a tagged word and no head
  flag, and is a tail only; the head at \<open>0x1000\<close> has the head flag and no tagged word,
  and is a head only; the page at \<open>0x2000\<close> is neither.
\<close>

theorem PageHead_PageTail_exclusive_witness:
  "(\<not> (\<exists>w b f. page_compound_head head_target 0x1040 = Inr w \<and> odd w \<and>
                symbols head_target ''PG_head'' = Some b \<and>
                page_flags head_target 0x1040 = Inr f \<and> bit f (unat b)) \<and>
    page_compound_head head_target 0x1040 = Inr 0x1001 \<and> odd (0x1001 :: 64 word) \<and>
    symbols head_target ''PG_head'' = Some 16 \<and> page_flags head_target 0x1040 = Inr 0 \<and>
    \<not> bit (0 :: 64 word) (unat (16 :: 64 word)) \<and>
    PageTail head_target 0x1040 = Inr True \<and> PageHead head_target 0x1040 = Inr False) \<and>
   (\<not> (\<exists>w b f. page_compound_head head_target 0x1000 = Inr w \<and> odd w \<and>
                symbols head_target ''PG_head'' = Some b \<and>
                page_flags head_target 0x1000 = Inr f \<and> bit f (unat b)) \<and>
    PageHead head_target 0x1000 = Inr True \<and> PageTail head_target 0x1000 = Inr False) \<and>
   (PageHead head_target 0x2000 = Inr False \<and> PageTail head_target 0x2000 = Inr False)"
proof -
  have t: "page_compound_head head_target 0x1040 = Inr 0x1001 \<and>
      symbols head_target ''PG_head'' = Some 16 \<and> page_flags head_target 0x1040 = Inr 0"
    by (simp add: head_target_def run_defs)
  have h: "page_compound_head head_target 0x1000 = Inr 0"
    by (simp add: head_target_def run_defs)
  have s: "PageHead head_target 0x2000 = Inr False \<and> PageTail head_target 0x2000 = Inr False"
    by (simp add: head_target_def PageHead_def PageTail_def run_defs)
  have hh: "PageHead head_target 0x1000 = Inr True \<and> PageTail head_target 0x1000 = Inr False"
    by (simp add: head_target_def PageHead_def PageTail_def page_is_fake_head_def run_defs)
  from t h s hh
    PageHead_PageTail_exclusive [of head_target "0x1040" "0x1001" 16 0]
    PageHead_PageTail_exclusive [of head_target "0x1000" 0 16 0]
  show ?thesis
    by simp
qed

text \<open>
  With arbitrary words the two can both be true: a descriptor that has the head flag
  and a tagged compound-head word of its own, and is not a fake head, is a head for
  \<^verbatim>\<open>PageHead\<close> and a tail for \<^verbatim>\<open>PageTail\<close>.
\<close>

theorem PageHead_PageTail_both_counterexample:
  "PageHead flagged_tail_target 0x1000 = Inr True \<and>
   PageTail flagged_tail_target 0x1000 = Inr True"
  by (simp add: flagged_tail_target_def PageHead_def PageTail_def page_is_fake_head_def run_defs)

section \<open>Fake heads\<close>

text \<open>
  Descriptors are aligned: the tag in the low bit of a compound-head word is what is
  left of the address of a descriptor. From an even base and with an even size of
  \<^verbatim>\<open>struct page\<close>, every \<^verbatim>\<open>page0 + i\<close> is even, and \<^verbatim>\<open>compound_head\<close> of a descriptor at
  an even address is at an even address.
\<close>

lemma aligned_descriptors:
  "even base \<Longrightarrow> even (sizeof_page prog) \<Longrightarrow> even (page_add prog base i)"
  by (simp add: page_add_def)

lemma compound_head_even:
  "compound_head prog page = Inr h \<Longrightarrow> even page \<Longrightarrow> even h"
  by (auto simp: compound_head_def ebind_def word_and_1 split: sum.splits if_splits)

text \<open>
  Claim C2. \<^verbatim>\<open>_page_is_fake_head\<close> depends on the target only through the
  compound-head word of the descriptor that follows (and the layout that locates it):
  two targets that agree there give the same answer. When that word can be read, the
  answer is that its low bit is set and that the word minus one is not the address of
  the descriptor. So for a descriptor, at its even address, whose follower's word is the
  address with the low bit set, the descriptor is not a fake head, and \<^verbatim>\<open>PageHead\<close> is
  the descriptor's own head flag.
\<close>

theorem page_is_fake_head_next_word:
  "(read_ulong prog' (page_add prog page 1 + off_compound_head prog)
      = read_ulong prog (page_add prog page 1 + off_compound_head prog) \<and>
    sizeof_page prog' = sizeof_page prog \<and> off_compound_head prog' = off_compound_head prog
    \<longrightarrow> page_is_fake_head prog' page = page_is_fake_head prog page) \<and>
   (read_ulong prog (page_add prog page 1 + off_compound_head prog) = Some w
    \<longrightarrow> page_is_fake_head prog page = Inr (odd w \<and> w - 1 \<noteq> page)) \<and>
   (even page \<and>
    read_ulong prog (page_add prog page 1 + off_compound_head prog) = Some (page OR 1)
    \<longrightarrow> page_is_fake_head prog page = Inr False \<and>
        (symbols prog ''PG_head'' = Some b \<and> read_ulong prog (page + off_flags prog) = Some f
         \<longrightarrow> PageHead prog page = Inr (bit f (unat b))))"
proof (intro conjI impI)
  assume "read_ulong prog' (page_add prog page 1 + off_compound_head prog)
      = read_ulong prog (page_add prog page 1 + off_compound_head prog) \<and>
    sizeof_page prog' = sizeof_page prog \<and> off_compound_head prog' = off_compound_head prog"
  then show "page_is_fake_head prog' page = page_is_fake_head prog page"
    by (simp add: page_is_fake_head_def page_compound_head_def read_member_def page_add_def)
next
  assume "read_ulong prog (page_add prog page 1 + off_compound_head prog) = Some w"
  then have "page_compound_head prog (page_add prog page 1) = Inr w"
    by (simp add: page_compound_head_def read_member_def)
  then show "page_is_fake_head prog page = Inr (odd w \<and> w - 1 \<noteq> page)"
    by (rule page_is_fake_head_Inr)
next
  assume a: "even page \<and>
    read_ulong prog (page_add prog page 1 + off_compound_head prog) = Some (page OR 1)"
  then have "page_compound_head prog (page_add prog page 1) = Inr (page OR 1)"
    by (simp add: page_compound_head_def read_member_def)
  then have "page_is_fake_head prog page = Inr (odd (page OR 1) \<and> (page OR 1) - 1 \<noteq> page)"
    by (rule page_is_fake_head_Inr)
  with a show fake: "page_is_fake_head prog page = Inr False"
    by (simp add: or_1_even)
  assume "symbols prog ''PG_head'' = Some b \<and> read_ulong prog (page + off_flags prog) = Some f"
  with fake show "PageHead prog page = Inr (bit f (unat b))"
    by (simp add: PageHead_def ebind_def prog_lookup_def page_flags_def read_member_def
        flag_test_bit)
qed


text \<open>The head of the compound page of order 3, in its memory and in one that holds
  nothing but the compound-head word of the descriptor after it.\<close>

theorem page_is_fake_head_next_word_witness:
  "read_ulong (head_target\<lparr>read_ulong := [0x1048 \<mapsto> 0x1001]\<rparr>)
       (page_add head_target 0x1000 1 + off_compound_head head_target)
     = read_ulong head_target (page_add head_target 0x1000 1 + off_compound_head head_target) \<and>
   page_is_fake_head (head_target\<lparr>read_ulong := [0x1048 \<mapsto> 0x1001]\<rparr>) 0x1000 = Inr False \<and>
   even (0x1000 :: 64 word) \<and>
   read_ulong head_target (page_add head_target 0x1000 1 + off_compound_head head_target)
     = Some (0x1000 OR 1) \<and>
   symbols head_target ''PG_head'' = Some 16 \<and>
   read_ulong head_target (0x1000 + off_flags head_target) = Some 0x10040 \<and>
   page_is_fake_head head_target 0x1000 = Inr False \<and>
   PageHead head_target 0x1000 = Inr True"
  using page_is_fake_head_next_word
    [of "head_target\<lparr>read_ulong := [0x1048 \<mapsto> 0x1001]\<rparr>" head_target "0x1000" "0x1001" 16 "0x10040"]
  by (simp add: head_target_def target_def page_add_def)


section \<open>The head of a page\<close>

text \<open>
  Claim C3. When the descriptor's own compound-head word has its low bit set,
  \<^verbatim>\<open>compound_head\<close> returns that word minus one as a descriptor address, whatever the rest
  of the target holds. Otherwise, when the descriptor has the head flag, it reads the
  compound-head word of the descriptor one slot ahead and returns that word minus one if
  its low bit is set, and the descriptor itself if not. Without the head flag it returns
  the descriptor itself.
\<close>

theorem compound_head_cases:
  "(page_compound_head prog page = Inr w \<and> odd w
      \<longrightarrow> compound_head prog page = Inr (w - 1)) \<and>
   (page_compound_head prog page = Inr w \<and> even w \<and>
    symbols prog ''PG_head'' = Some b \<and> page_flags prog page = Inr f \<and> bit f (unat b) \<and>
    page_compound_head prog (page_add prog page 1) = Inr w'
      \<longrightarrow> compound_head prog page = Inr (if odd w' then w' - 1 else page)) \<and>
   (page_compound_head prog page = Inr w \<and> even w \<and>
    symbols prog ''PG_head'' = Some b \<and> page_flags prog page = Inr f \<and> \<not> bit f (unat b)
      \<longrightarrow> compound_head prog page = Inr page)"
  by (simp add: compound_head_def ebind_def prog_lookup_def flag_test_bit word_and_1)

text \<open>The tail, the head and the page on its own of the example target.\<close>

theorem compound_head_cases_witness:
  "(page_compound_head head_target 0x1040 = Inr 0x1001 \<and> odd (0x1001 :: 64 word) \<and>
    compound_head head_target 0x1040 = Inr 0x1000) \<and>
   (page_compound_head head_target 0x1000 = Inr 0 \<and> even (0 :: 64 word) \<and>
    symbols head_target ''PG_head'' = Some 16 \<and>
    page_flags head_target 0x1000 = Inr 0x10040 \<and> bit (0x10040 :: 64 word) (unat (16 :: 64 word)) \<and>
    page_compound_head head_target (page_add head_target 0x1000 1) = Inr 0x1001 \<and>
    compound_head head_target 0x1000 = Inr 0x1000) \<and>
   (page_compound_head head_target 0x2000 = Inr 0 \<and>
    page_flags head_target 0x2000 = Inr 0 \<and> \<not> bit (0 :: 64 word) (unat (16 :: 64 word)) \<and>
    compound_head head_target 0x2000 = Inr 0x2000)"
  using compound_head_cases [of head_target "0x1040" "0x1001" 16 0 0]
    compound_head_cases [of head_target "0x1000" 0 16 "0x10040" "0x1001"]
    compound_head_cases [of head_target "0x2000" 0 16 0 0]
  by (simp add: head_target_def target_def page_compound_head_def page_flags_def
      read_member_def page_add_def)

text \<open>
  Claim C4, as the code has it. \<^verbatim>\<open>compound_head\<close> follows one tagged word and does not
  look at what it finds there. When the head it returns is not itself a tail
  (\<^verbatim>\<open>PageTail\<close> of it is false), \<^verbatim>\<open>compound_head\<close> of that head is that head again.
\<close>

theorem compound_head_idempotent:
  assumes "compound_head prog page = Inr h" and "PageTail prog h = Inr False"
  shows "compound_head prog h = Inr h"
  using assms(2)
  by (auto simp: compound_head_def PageTail_def ebind_def uint_and_1 word_and_1
      page_is_fake_head_def Let_def
      split: sum.splits if_splits dest: uint_pred_eqD)

theorem compound_head_idempotent_witness:
  "compound_head head_target 0x1040 = Inr 0x1000 \<and> PageTail head_target 0x1000 = Inr False \<and>
   compound_head head_target 0x1000 = Inr 0x1000"
  using compound_head_idempotent [of head_target "0x1040" "0x1000"]
  by (simp add: head_target_def compound_head_def PageTail_def page_is_fake_head_def run_defs)

text \<open>
  Over arbitrary memory, the head of a tail can be tagged as a tail of a third
  descriptor, and applying \<^verbatim>\<open>compound_head\<close> again moves on.
\<close>

theorem compound_head_chain_counterexample:
  "compound_head chain_target 0x1000 = Inr 0x2000 \<and>
   compound_head chain_target 0x2000 = Inr 0x3000 \<and>
   ebind (compound_head chain_target 0x1000) (compound_head chain_target)
     \<noteq> compound_head chain_target 0x1000"
  by (simp add: chain_target_def compound_head_def run_defs)

section \<open>Targets without the head flag\<close>

text \<open>
  Claim C10, as the code has it. When \<^verbatim>\<open>PG_head\<close> is not among the target's symbols,
  \<^verbatim>\<open>PageCompound\<close> and \<^verbatim>\<open>PageHead\<close> raise \<^verbatim>\<open>KeyError\<close>. \<^verbatim>\<open>PageTail\<close> and
  \<^verbatim>\<open>compound_head\<close> read the descriptor's own compound-head word first: they raise
  \<^verbatim>\<open>KeyError\<close> when its low bit is clear, they return (true, and the word minus one)
  without looking the flag up when its low bit is set, and they raise the fault when
  the word cannot be read.
\<close>

theorem PG_head_absent:
  assumes "symbols prog ''PG_head'' = None"
  shows "PageCompound prog page = Inl (KeyError ''PG_head'') \<and>
         PageHead prog page = Inl (KeyError ''PG_head'') \<and>
         (page_compound_head prog page = Inr w \<and> even w
            \<longrightarrow> PageTail prog page = Inl (KeyError ''PG_head'') \<and>
                compound_head prog page = Inl (KeyError ''PG_head'')) \<and>
         (page_compound_head prog page = Inr w \<and> odd w
            \<longrightarrow> PageTail prog page = Inr True \<and> compound_head prog page = Inr (w - 1)) \<and>
         (page_compound_head prog page = Inl e
            \<longrightarrow> PageTail prog page = Inl e \<and> compound_head prog page = Inl e)"
  using assms
  by (simp add: PageCompound_def PageHead_def PageTail_def compound_head_def ebind_def
      prog_lookup_def uint_and_1 word_and_1)

theorem PG_head_absent_witness:
  "symbols bare_target ''PG_head'' = None \<and>
   PageCompound bare_target 0x1000 = Inl (KeyError ''PG_head'') \<and>
   PageHead bare_target 0x1000 = Inl (KeyError ''PG_head'') \<and>
   page_compound_head bare_target 0xff8 = Inr 0 \<and> even (0 :: 64 word) \<and>
   PageTail bare_target 0xff8 = Inl (KeyError ''PG_head'') \<and>
   compound_head bare_target 0xff8 = Inl (KeyError ''PG_head'') \<and>
   page_compound_head bare_target 0x1000 = Inr 0x2001 \<and> odd (0x2001 :: 64 word) \<and>
   PageTail bare_target 0x1000 = Inr True \<and>
   compound_head bare_target 0x1000 = Inr 0x2000 \<and>
   page_compound_head bare_target 0x3000 = Inl (FaultError 0x3008) \<and>
   PageTail bare_target 0x3000 = Inl (FaultError 0x3008)"
  using PG_head_absent [of bare_target "0x1000" "0x2001" "FaultError 0"]
    PG_head_absent [of bare_target "0xff8" 0 "FaultError 0"]
    PG_head_absent [of bare_target "0x3000" 0 "FaultError 0x3008"]
  by (simp add: bare_target_def target_def page_compound_head_def read_member_def)

text \<open>A tail descriptor in a target without \<^verbatim>\<open>PG_head\<close>: no \<^verbatim>\<open>KeyError\<close>.\<close>

theorem PG_head_absent_tail_counterexample:
  "symbols bare_target ''PG_head'' = None \<and>
   PageTail bare_target 0x1000 = Inr True \<and>
   compound_head bare_target 0x1000 = Inr 0x2000"
  by (simp add: bare_target_def PageTail_def compound_head_def run_defs)

section \<open>Round trips of the address translation\<close>

text \<open>
  Claim C5. For a PFN \<open>p\<close> in range, that is \<open>0 \<le> p < 2 ^ (64 - PAGE_SHIFT)\<close>, so
  that its physical address fits the 64 bits of \<^verbatim>\<open>phys_addr_t\<close>,
  \<^verbatim>\<open>PHYS_PFN(PFN_PHYS(p))\<close> is \<open>p\<close>. For every 64-bit address,
  \<^verbatim>\<open>virt_to_phys(phys_to_virt(addr))\<close> is \<open>addr\<close>, whatever the direct mapping offset
  and the alignment of the address.
\<close>

theorem translation_round_trips:
  "(symbols prog ''PAGE_SHIFT'' = Some s \<and> 0 \<le> p \<and> p < 2 ^ (64 - unat s)
      \<longrightarrow> ebind (PFN_PHYS prog p) (\<lambda>a. PHYS_PFN prog (uint a)) = Inr (word_of_int p) \<and>
          uint (word_of_int p :: 64 word) = p) \<and>
   (direct_mapping_offset prog = Inr d
      \<longrightarrow> ebind (phys_to_virt prog (uint addr)) (\<lambda>v. virt_to_phys prog (uint v)) = Inr addr)"
proof (intro conjI impI)
  assume a: "symbols prog ''PAGE_SHIFT'' = Some s \<and> 0 \<le> p \<and> p < 2 ^ (64 - unat s)"
  then have "p < 2 ^ 64"
    by (smt (verit) diff_le_self power_increasing)
  with a show u: "uint (word_of_int p :: 64 word) = p"
    by (simp add: uint_word_of_int take_bit_int_eq_self flip: take_bit_eq_mod)
  with a have "drop_bit (unat s) (push_bit (unat s) (word_of_int p :: 64 word)) = word_of_int p"
    by (simp add: shift_round_trip)
  with a show "ebind (PFN_PHYS prog p) (\<lambda>a. PHYS_PFN prog (uint a)) = Inr (word_of_int p)"
    by (simp add: PFN_PHYS_def PHYS_PFN_def ebind_def prog_lookup_def)
next
  assume "direct_mapping_offset prog = Inr d"
  then show "ebind (phys_to_virt prog (uint addr)) (\<lambda>v. virt_to_phys prog (uint v)) = Inr addr"
    by (simp add: phys_to_virt_def virt_to_phys_def ebind_def)
qed

text \<open>PFN \<open>0x100\<close> with 4096-byte pages, and physical address \<open>0x100000\<close>.\<close>

theorem translation_round_trips_witness:
  "symbols head_target ''PAGE_SHIFT'' = Some 12 \<and> (0::int) \<le> 0x100 \<and>
   (0x100::int) < 2 ^ (64 - unat (12 :: 64 word)) \<and>
   PFN_PHYS head_target 0x100 = Inr 0x100000 \<and>
   ebind (PFN_PHYS head_target 0x100) (\<lambda>a. PHYS_PFN head_target (uint a)) = Inr 0x100 \<and>
   direct_mapping_offset head_target = Inr 0xffff888000000000 \<and>
   phys_to_virt head_target 0x100000 = Inr 0xffff888000100000 \<and>
   ebind (phys_to_virt head_target (uint (0x100000 :: 64 word)))
     (\<lambda>v. virt_to_phys head_target (uint v)) = Inr 0x100000"
  using translation_round_trips [of head_target 12 "0x100" "0xffff888000000000" "0x100000"]
  by (simp add: head_target_def target_def PFN_PHYS_def phys_to_virt_def
      ebind_def prog_lookup_def)

section \<open>Order, number of pages and size\<close>

text \<open>
  Claim C6. When \<^verbatim>\<open>PageHead\<close> is false, \<^verbatim>\<open>compound_order\<close> is 0 and \<^verbatim>\<open>compound_nr\<close>
  is 1. \<^verbatim>\<open>page_size\<close> is \<^verbatim>\<open>PAGE_SIZE\<close> shifted left by \<^verbatim>\<open>compound_order\<close>. A head
  whose order field is 3 has 8 pages and, with 4096-byte pages, 32768 bytes.
\<close>

theorem compound_order_nr_size:
  "(PageHead prog page = Inr False
      \<longrightarrow> compound_order prog page = Inr 0 \<and> compound_nr prog page = Inr 1) \<and>
   (symbols prog ''PAGE_SIZE'' = Some ps \<and> compound_order prog page = Inr k
      \<longrightarrow> page_size prog page = Inr (push_bit (unat k) ps)) \<and>
   (PageHead prog page = Inr True \<and> page1_compound_order prog page = Inr 3 \<and>
    symbols prog ''PAGE_SIZE'' = Some 4096
      \<longrightarrow> compound_order prog page = Inr 3 \<and> compound_nr prog page = Inr 8 \<and>
          page_size prog page = Inr 32768)"
  by (simp add: compound_order_def compound_nr_def page_size_def ebind_def prog_lookup_def)

text \<open>The tail and the head of the compound page of order 3.\<close>

theorem compound_order_nr_size_witness:
  "(PageHead head_target 0x1040 = Inr False \<and>
    compound_order head_target 0x1040 = Inr 0 \<and> compound_nr head_target 0x1040 = Inr 1 \<and>
    page_size head_target 0x1040 = Inr 4096) \<and>
   (PageHead head_target 0x1000 = Inr True \<and>
    page1_compound_order head_target 0x1000 = Inr 3 \<and>
    symbols head_target ''PAGE_SIZE'' = Some 4096 \<and>
    compound_order head_target 0x1000 = Inr 3 \<and> compound_nr head_target 0x1000 = Inr 8 \<and>
    page_size head_target 0x1000 = Inr 32768)"
  using compound_order_nr_size [of head_target "0x1040" 4096 0]
    compound_order_nr_size [of head_target "0x1000" 4096 3]
  by (simp add: head_target_def PageHead_def page_is_fake_head_def page1_compound_order_def
      run_defs)

section \<open>Flags that the target does not have\<close>

text \<open>
  Claim C8. A generated getter returns false, and raises nothing, when its flag is not
  among the target's symbols; otherwise, when the flags word can be read, it returns
  whether the bit with the flag's number is set in it. \<^verbatim>\<open>PageActive\<close> is the getter of
  \<^verbatim>\<open>PG_active\<close>.
\<close>

theorem page_flag_getter_absent_or_bit:
  "(symbols prog name = None \<longrightarrow> page_flag_getter name prog page = Inr False) \<and>
   (symbols prog name = Some b \<and> page_flags prog page = Inr f
      \<longrightarrow> page_flag_getter name prog page = Inr (bit f (unat b))) \<and>
   PageActive prog page = page_flag_getter ''PG_active'' prog page"
  by (simp add: page_flag_getter_def PageActive_def prog_lookup_def ebind_def flag_test_bit)

theorem page_flag_getter_absent_or_bit_witness:
  "(symbols bare_target ''PG_active'' = None \<and> PageActive bare_target 0x1000 = Inr False) \<and>
   (symbols head_target ''PG_active'' = Some 6 \<and>
    page_flags head_target 0x1000 = Inr 0x10040 \<and>
    PageActive head_target 0x1000 = Inr True \<and>
    page_flags head_target 0x2000 = Inr 0 \<and>
    PageActive head_target 0x2000 = Inr False)"
  using page_flag_getter_absent_or_bit [of bare_target "''PG_active''" "0x1000" 0 0]
    page_flag_getter_absent_or_bit [of head_target "''PG_active''" "0x1000" 6 "0x10040"]
    page_flag_getter_absent_or_bit [of head_target "''PG_active''" "0x2000" 6 0]
  by (simp add: bare_target_def head_target_def target_def page_flags_def read_member_def)

section \<open>Resolving the descriptor of PFN 0\<close>

lemma page0_flatmem_Inr:
  "symbols prog ''contig_page_data'' = Some c \<Longrightarrow>
   read_ulong prog (c + off_node_mem_map prog) = Some m \<Longrightarrow>
   read_ulong prog (c + off_node_start_pfn prog) = Some n \<Longrightarrow>
   page0_flatmem prog = Inr (m - n * sizeof_page prog)"
  by (simp add: page0_flatmem_def ebind_def prog_lookup_def read_member_def)

lemma page0_cache:
  "page0 prog = (r, prog') \<Longrightarrow>
   prog' = prog \<or> (\<exists>b. r = Inr b \<and> prog' = prog\<lparr>cache := (cache prog)(''page0'' \<mapsto> b)\<rparr>)"
  by (auto simp: page0_def split: option.splits sum.splits error.splits)

text \<open>
  Claim C7, as the code has it. \<^verbatim>\<open>_page0\<close> returns the cached address when there is
  one. Otherwise it takes \<^verbatim>\<open>vmemmap\<close>; when that symbol is absent it takes
  \<^verbatim>\<open>contig_page_data.node_mem_map - contig_page_data.node_start_pfn\<close>; either result is
  cached, so that the next call returns it from the cache. When \<^verbatim>\<open>contig_page_data\<close>
  is absent too, the \<^verbatim>\<open>KeyError\<close> of that lookup is what the caller gets, and nothing is
  cached.
\<close>

theorem page0_contract:
  "(cache prog ''page0'' = Some b \<longrightarrow> page0 prog = (Inr b, prog)) \<and>
   (cache prog ''page0'' = None \<and> symbols prog ''vmemmap'' = Some v
      \<longrightarrow> page0 prog = (Inr v, prog\<lparr>cache := (cache prog)(''page0'' \<mapsto> v)\<rparr>)) \<and>
   (cache prog ''page0'' = None \<and> symbols prog ''vmemmap'' = None \<and>
    symbols prog ''contig_page_data'' = Some c \<and>
    read_ulong prog (c + off_node_mem_map prog) = Some m \<and>
    read_ulong prog (c + off_node_start_pfn prog) = Some n
      \<longrightarrow> page0 prog = (Inr (m - n * sizeof_page prog),
                         prog\<lparr>cache := (cache prog)(''page0'' \<mapsto> m - n * sizeof_page prog)\<rparr>)) \<and>
   (cache prog ''page0'' = None \<and> symbols prog ''vmemmap'' = None \<and>
    symbols prog ''contig_page_data'' = None
      \<longrightarrow> page0 prog = (Inl (KeyError ''contig_page_data''), prog)) \<and>
   (page0 prog = (Inr a, prog') \<longrightarrow> page0 prog' = (Inr a, prog'))"
proof (intro conjI impI)
  assume "page0 prog = (Inr a, prog')"
  then have "cache prog' ''page0'' = Some a"
    by (auto simp: page0_def split: option.splits sum.splits error.splits)
  then show "page0 prog' = (Inr a, prog')"
    by (simp add: page0_def)
qed (simp_all add: page0_def prog_lookup_def page0_flatmem_Inr,
     simp add: page0_flatmem_def ebind_def prog_lookup_def)

theorem page0_contract_witness:
  "(cache scan_target ''page0'' = None \<and> symbols scan_target ''vmemmap'' = Some 0x100000 \<and>
    page0 scan_target
      = (Inr 0x100000, scan_target\<lparr>cache := (cache scan_target)(''page0'' \<mapsto> 0x100000)\<rparr>) \<and>
    page0 (scan_target\<lparr>cache := (cache scan_target)(''page0'' \<mapsto> 0x100000)\<rparr>)
      = (Inr 0x100000, scan_target\<lparr>cache := (cache scan_target)(''page0'' \<mapsto> 0x100000)\<rparr>)) \<and>
   (cache flatmem_target ''page0'' = None \<and> symbols flatmem_target ''vmemmap'' = None \<and>
    symbols flatmem_target ''contig_page_data'' = Some 0x5000 \<and>
    read_ulong flatmem_target (0x5000 + off_node_mem_map flatmem_target) = Some 0x900400 \<and>
    read_ulong flatmem_target (0x5000 + off_node_start_pfn flatmem_target) = Some 0x10 \<and>
    fst (page0 flatmem_target) = Inr 0x900000) \<and>
   (cache bare_target ''page0'' = None \<and> symbols bare_target ''vmemmap'' = None \<and>
    symbols bare_target ''contig_page_data'' = None \<and>
    page0 bare_target = (Inl (KeyError ''contig_page_data''), bare_target))"
proof -
  have s: "cache scan_target ''page0'' = None \<and> symbols scan_target ''vmemmap'' = Some 0x100000"
    by (simp add: scan_target_def target_def)
  have f: "cache flatmem_target ''page0'' = None \<and> symbols flatmem_target ''vmemmap'' = None \<and>
    symbols flatmem_target ''contig_page_data'' = Some 0x5000 \<and>
    read_ulong flatmem_target (0x5000 + off_node_mem_map flatmem_target) = Some 0x900400 \<and>
    read_ulong flatmem_target (0x5000 + off_node_start_pfn flatmem_target) = Some 0x10"
    by (simp add: flatmem_target_def target_def)
  have z: "sizeof_page flatmem_target = 0x40"
    by (simp add: flatmem_target_def target_def)
  have b: "cache bare_target ''page0'' = None \<and> symbols bare_target ''vmemmap'' = None \<and>
    symbols bare_target ''contig_page_data'' = None"
    by (simp add: bare_target_def target_def)
  note c = page0_contract
  from s c [of scan_target _ "0x100000"]
  have s1: "page0 scan_target
      = (Inr 0x100000, scan_target\<lparr>cache := (cache scan_target)(''page0'' \<mapsto> 0x100000)\<rparr>)"
    by blast
  with c [of scan_target _ _ _ _ _ "0x100000"
      "scan_target\<lparr>cache := (cache scan_target)(''page0'' \<mapsto> 0x100000)\<rparr>"]
  have s2: "page0 (scan_target\<lparr>cache := (cache scan_target)(''page0'' \<mapsto> 0x100000)\<rparr>)
      = (Inr 0x100000, scan_target\<lparr>cache := (cache scan_target)(''page0'' \<mapsto> 0x100000)\<rparr>)"
    by blast
  from f c [of flatmem_target _ _ "0x5000" "0x900400" "0x10"]
  have "fst (page0 flatmem_target) = Inr (0x900400 - 0x10 * sizeof_page flatmem_target)"
    by simp
  then have f1: "fst (page0 flatmem_target) = Inr 0x900000"
    by (simp add: z)
  from b c [of bare_target]
  have b1: "page0 bare_target = (Inl (KeyError ''contig_page_data''), bare_target)"
    by blast
  from s s1 s2 f f1 b b1 show ?thesis
    by blast
qed

text \<open>
  With neither symbol the error is the \<^verbatim>\<open>KeyError\<close> of the metadata lookup itself; the
  code has no error of its own for an unsupported memory model.
\<close>

theorem page0_unsupported_counterexample:
  "cache bare_target ''page0'' = None \<and> symbols bare_target ''vmemmap'' = None \<and>
   symbols bare_target ''contig_page_data'' = None \<and>
   fst (page0 bare_target) = Inl (KeyError ''contig_page_data'') \<and>
   fst (page0 bare_target) = prog_lookup bare_target ''contig_page_data''"
  by (simp add: bare_target_def target_def page0_def page0_flatmem_def ebind_def prog_lookup_def)

section \<open>The generator of all pages\<close>

lemma page_add_cache [simp]: "page_add (prog\<lparr>cache := c\<rparr>) = page_add prog"
  by (simp add: page_add_def fun_eq_iff)

lemma page0_symbols:
  "page0 prog = (r, prog') \<Longrightarrow> symbols prog' = symbols prog \<and> page_add prog' = page_add prog"
  by (auto dest: page0_cache)

lemma take_pages_Suspended:
  "take_pages n prog (Suspended p i stop) =
     (take n (map (page_add prog p) [i..stop - 1]),
      if int n \<le> stop - i then Suspended p (i + int n) stop
      else if stop \<le> i \<and> n = 0 then Suspended p i stop else Finished,
      prog)"
proof (induction n arbitrary: i)
  case 0
  then show ?case by simp
next
  case (Suc n)
  show ?case
  proof (cases "i < stop")
    case True
    then have "[i..stop - 1] = i # [i + 1..stop - 1]"
      by (simp add: upto_rec1)
    with True Suc [of "i + 1"] show ?thesis
      by (auto simp: range_step_def)
  next
    case False
    then show ?thesis
      by (simp add: range_step_def)
  qed
qed

lemma skip_faults_Inl: "f prog page = Inl e \<Longrightarrow> skip_faults f prog page = None"
  by (simp add: skip_faults_def)

lemma skip_faults_Inr: "f prog page = Inr v \<Longrightarrow> skip_faults f prog page = Some (page, v)"
  by (simp add: skip_faults_def)

lemma for_each_page_try_Suspended:
  "\<forall>j k. i \<le> j \<and> j < stop \<longrightarrow> f prog (page_add prog p j) \<noteq> Inl (KeyError k) \<Longrightarrow>
   nat (stop - i) < n \<Longrightarrow>
   for_each_page_try n f prog (Suspended p i stop) =
     Some (Inr (List.map_filter (skip_faults f prog) (map (page_add prog p) [i..stop - 1])))"
proof (induction n arbitrary: i)
  case 0
  then show ?case by simp
next
  case (Suc n)
  show ?case
  proof (cases "i < stop")
    case True
    then have u: "[i..stop - 1] = i # [i + 1..stop - 1]"
      by (simp add: upto_rec1)
    from True Suc.prems have ih: "for_each_page_try n f prog (Suspended p (i + 1) stop) =
       Some (Inr (List.map_filter (skip_faults f prog) (map (page_add prog p) [i + 1..stop - 1])))"
      by (intro Suc.IH) auto
    from True Suc.prems(1) have nk: "\<And>k. f prog (page_add prog p i) \<noteq> Inl (KeyError k)"
      by simp
    show ?thesis
    proof (cases "f prog (page_add prog p i)")
      case (Inl e)
      with nk obtain a where "e = FaultError a"
        by (cases e) auto
      with Inl True u ih show ?thesis
        by (simp add: range_step_def map_filter_simps skip_faults_Inl)
    next
      case (Inr v)
      with True u ih show ?thesis
        by (simp add: range_step_def map_filter_simps skip_faults_Inr)
    qed
  next
    case False
    then show ?thesis
      by (simp add: range_step_def map_filter_simps)
  qed
qed

lemma page_flag_getter_no_KeyError: "page_flag_getter name prog page \<noteq> Inl (KeyError k)"
  by (auto simp: page_flag_getter_def prog_lookup_def page_flags_def read_member_def ebind_def
      split: option.splits)

text \<open>
  Claim C9. Once \<^verbatim>\<open>_page0\<close> has given the base and \<^verbatim>\<open>min_low_pfn\<close> and \<^verbatim>\<open>max_pfn\<close>
  are known, the first \<open>n\<close> pages taken from a fresh \<^verbatim>\<open>for_each_page\<close> are the first
  \<open>n\<close> of the addresses \<open>base + pfn\<close> (in descriptors) for the PFNs of
  \<^verbatim>\<open>range(min_low_pfn, max_pfn)\<close> in increasing order, each once; with more fuel than
  PFNs the generator has finished. A step of the suspended generator gives the same
  page and the same next state whatever the memory of the target holds: it reads
  nothing. So the loop that skips the pages whose access faults still visits every PFN:
  it returns the pages whose access returned, in order.
\<close>

theorem for_each_page_enumerates:
  assumes "page0 prog = (Inr base, prog')"
    and "symbols prog ''min_low_pfn'' = Some lo"
    and "symbols prog ''max_pfn'' = Some hi"
  shows "fst (take_pages n prog Created)
           = take n (map (page_add prog base) [uint lo..uint hi - 1]) \<and>
         (nat (uint hi - uint lo) < n \<longrightarrow> fst (snd (take_pages n prog Created)) = Finished) \<and>
         fst (for_each_page_next (prog'\<lparr>read_ulong := m, read_order := r\<rparr>) (Suspended base i stop))
           = fst (for_each_page_next prog' (Suspended base i stop)) \<and>
         fst (snd (for_each_page_next (prog'\<lparr>read_ulong := m, read_order := r\<rparr>)
                    (Suspended base i stop)))
           = fst (snd (for_each_page_next prog' (Suspended base i stop))) \<and>
         ((\<forall>j k. uint lo \<le> j \<and> j < uint hi
                  \<longrightarrow> f prog' (page_add prog base j) \<noteq> Inl (KeyError k)) \<and>
          nat (uint hi - uint lo) < n
            \<longrightarrow> for_each_page_try n f prog Created
                  = Some (Inr (List.map_filter (skip_faults f prog')
                                 (map (page_add prog base) [uint lo..uint hi - 1]))))"
proof -
  from assms(1) have sy: "symbols prog' = symbols prog" and pa: "page_add prog' = page_add prog"
    by (simp_all add: page0_symbols)
  from assms sy have lk: "prog_lookup prog' ''min_low_pfn'' = Inr lo"
      "prog_lookup prog' ''max_pfn'' = Inr hi"
    by (simp_all add: prog_lookup_def)
  have step: "for_each_page_next prog Created =
      (case range_step prog' base (uint lo) (uint hi) of (x, g) \<Rightarrow> (x, g, prog'))"
    using assms(1) lk by simp
  have u: "uint lo < uint hi \<Longrightarrow> [uint lo..uint hi - 1] = uint lo # [uint lo + 1..uint hi - 1]"
    by (simp add: upto_rec1)
  have a: "fst (take_pages n prog Created)
           = take n (map (page_add prog base) [uint lo..uint hi - 1])"
  proof (cases n)
    case 0
    then show ?thesis by simp
  next
    case (Suc k)
    then show ?thesis
      using u by (simp add: step range_step_def take_pages_Suspended pa del: for_each_page_next.simps)
  qed
  have b: "nat (uint hi - uint lo) < n \<longrightarrow> fst (snd (take_pages n prog Created)) = Finished"
  proof (cases n)
    case 0
    then show ?thesis by simp
  next
    case (Suc k)
    then show ?thesis
      by (auto simp: step range_step_def take_pages_Suspended simp del: for_each_page_next.simps)
  qed
  have c: "fst (for_each_page_next (prog'\<lparr>read_ulong := m, read_order := r\<rparr>) (Suspended base i stop))
           = fst (for_each_page_next prog' (Suspended base i stop))"
    by (simp add: range_step_def page_add_def)
  have d: "fst (snd (for_each_page_next (prog'\<lparr>read_ulong := m, read_order := r\<rparr>)
                    (Suspended base i stop)))
           = fst (snd (for_each_page_next prog' (Suspended base i stop)))"
    by (simp add: range_step_def)
  have e: "(\<forall>j k. uint lo \<le> j \<and> j < uint hi
                  \<longrightarrow> f prog' (page_add prog base j) \<noteq> Inl (KeyError k)) \<and>
          nat (uint hi - uint lo) < n
            \<longrightarrow> for_each_page_try n f prog Created
                  = Some (Inr (List.map_filter (skip_faults f prog')
                                 (map (page_add prog base) [uint lo..uint hi - 1])))"
  proof (intro impI, elim conjE)
    assume nk: "\<forall>j k. uint lo \<le> j \<and> j < uint hi
                  \<longrightarrow> f prog' (page_add prog base j) \<noteq> Inl (KeyError k)"
      and fuel: "nat (uint hi - uint lo) < n"
    then obtain k where n: "n = Suc k"
      by (cases n) auto
    show "for_each_page_try n f prog Created
                  = Some (Inr (List.map_filter (skip_faults f prog')
                                 (map (page_add prog base) [uint lo..uint hi - 1])))"
    proof (cases "uint lo < uint hi")
      case False
      then show ?thesis
        by (simp add: n step range_step_def map_filter_simps del: for_each_page_next.simps)
    next
      case True
      from nk have "\<forall>j k. uint lo + 1 \<le> j \<and> j < uint hi
                  \<longrightarrow> f prog' (page_add prog' base j) \<noteq> Inl (KeyError k)"
        by (simp add: pa)
      moreover from True fuel n have "nat (uint hi - (uint lo + 1)) < k"
        by simp
      ultimately have rest: "for_each_page_try k f prog' (Suspended base (uint lo + 1) (uint hi)) =
         Some (Inr (List.map_filter (skip_faults f prog')
                      (map (page_add prog' base) [uint lo + 1..uint hi - 1])))"
        by (rule for_each_page_try_Suspended)
      from nk True have nk0: "\<And>k. f prog' (page_add prog base (uint lo)) \<noteq> Inl (KeyError k)"
        by simp
      show ?thesis
      proof (cases "f prog' (page_add prog base (uint lo))")
        case (Inl e)
        with nk0 obtain a where "e = FaultError a"
          by (cases e) auto
        with Inl True rest show ?thesis
          by (simp add: n step range_step_def u map_filter_simps skip_faults_Inl pa del: for_each_page_next.simps)
      next
        case (Inr v)
        with True rest show ?thesis
          by (simp add: n step range_step_def u map_filter_simps skip_faults_Inr pa del: for_each_page_next.simps)
      qed
    qed
  qed
  from a b c d e show ?thesis
    by blast
qed

text \<open>
  Ten PFNs, of which PFN 5 faults when its flags are read: the generator yields all
  ten descriptors, and the loop gets the nine others, up to PFN 9.
\<close>

lemma scan_pages: "map (page_add scan_target 0x100000) [0..9] =
  [0x100000, 0x100040, 0x100080, 0x1000c0, 0x100100, 0x100140, 0x100180, 0x1001c0,
   0x100200, 0x100240]"
  by (simp add: upto_rec1 page_add_def scan_target_def target_def)

lemma scan_PageLRU:
  "PageLRU scan_target_cached page =
     (if page = 0x100140 then Inl (FaultError 0x100140) else Inr True)"
  by (simp add: scan_target_cached_def scan_target_def PageLRU_def page_flag_getter_def
      target_def prog_lookup_def page_flags_def read_member_def ebind_def flag_test_bit)

theorem for_each_page_enumerates_witness:
  "page0 scan_target = (Inr 0x100000, scan_target_cached) \<and>
   symbols scan_target ''min_low_pfn'' = Some 0 \<and>
   symbols scan_target ''max_pfn'' = Some 10 \<and>
   fst (take_pages 3 scan_target Created) = [0x100000, 0x100040, 0x100080] \<and>
   fst (take_pages 11 scan_target Created) =
     [0x100000, 0x100040, 0x100080, 0x1000c0, 0x100100, 0x100140, 0x100180, 0x1001c0,
      0x100200, 0x100240] \<and>
   fst (snd (take_pages 11 scan_target Created)) = Finished \<and>
   PageLRU scan_target_cached 0x100140 = Inl (FaultError 0x100140) \<and>
   for_each_page_try 11 PageLRU scan_target Created =
     Some (Inr [(0x100000, True), (0x100040, True), (0x100080, True), (0x1000c0, True),
                (0x100100, True), (0x100180, True), (0x1001c0, True), (0x100200, True),
                (0x100240, True)])"
proof -
  have p0: "page0 scan_target = (Inr 0x100000, scan_target_cached)"
    by (simp add: page0_def scan_target_cached_def prog_lookup_def scan_target_def target_def)
  have lo: "symbols scan_target ''min_low_pfn'' = Some 0"
    and hi: "symbols scan_target ''max_pfn'' = Some 10"
    by (simp_all add: scan_target_def target_def)
  note t = for_each_page_enumerates [OF p0 lo hi]
  have t3: "fst (take_pages 3 scan_target Created) = [0x100000, 0x100040, 0x100080]"
    using t [of 3, THEN conjunct1] by (simp add: scan_pages)
  have t11: "fst (take_pages 11 scan_target Created) =
     [0x100000, 0x100040, 0x100080, 0x1000c0, 0x100100, 0x100140, 0x100180, 0x1001c0,
      0x100200, 0x100240]"
    using t [of 11, THEN conjunct1] by (simp add: scan_pages)
  have fin: "fst (snd (take_pages 11 scan_target Created)) = Finished"
    using t [of 11, THEN conjunct2, THEN conjunct1] by simp
  have nk: "\<forall>j k. uint (0 :: 64 word) \<le> j \<and> j < uint (10 :: 64 word)
     \<longrightarrow> PageLRU scan_target_cached (page_add scan_target 0x100000 j) \<noteq> Inl (KeyError k)"
    by (simp add: PageLRU_def page_flag_getter_no_KeyError)
  have "for_each_page_try 11 PageLRU scan_target Created =
     Some (Inr (List.map_filter (skip_faults PageLRU scan_target_cached)
       (map (page_add scan_target 0x100000) [uint (0 :: 64 word)..uint (10 :: 64 word) - 1])))"
    using t [of 11 _ _ _ _ PageLRU] nk by simp
  then have res: "for_each_page_try 11 PageLRU scan_target Created =
     Some (Inr [(0x100000, True), (0x100040, True), (0x100080, True), (0x1000c0, True),
                (0x100100, True), (0x100180, True), (0x1001c0, True), (0x100200, True),
                (0x100240, True)])"
    by (simp add: scan_pages map_filter_simps skip_faults_def scan_PageLRU)
  from p0 lo hi t3 t11 fin res show ?thesis
    by (simp add: scan_PageLRU)
qed

end
